theory Spec2Isabelle
  imports Complex_Main
begin

section \<open>Values loaded from YAML and JSON\<close>

text \<open>
  \<open>yaml.safe_load\<close> and \<open>Response.json()\<close> both produce plain Python values: None,
  booleans, integers, floats, strings, lists and dicts with string keys. A dict is an
  association list in insertion order; a lookup takes the first entry of a key.
\<close>

datatype pyval =
    PNone
  | PBool bool
  | PInt int
  | PFloat real
  | PStr string
  | PList "pyval list"
  | PDict "(string \<times> pyval) list"

text \<open>Python's truth value, which \<open>if not x\<close> tests.\<close>

fun truthy :: "pyval \<Rightarrow> bool" where
  "truthy PNone = False"
| "truthy (PBool b) = b"
| "truthy (PInt i) = (i \<noteq> 0)"
| "truthy (PFloat x) = (x \<noteq> 0)"
| "truthy (PStr s) = (s \<noteq> [])"
| "truthy (PList xs) = (xs \<noteq> [])"
| "truthy (PDict kvs) = (kvs \<noteq> [])"

text \<open>The exceptions that can leave \<open>fetch_character_data\<close>.\<close>

datatype exn =
    FileNotFoundError
  | OSError
  | YAMLError
  | KeyError string
  | TypeError
  | AttributeError
  | ValueError
  | IndexError
  | RequestException

text \<open>
  \<open>config["key"]\<close>: a dict without the key raises KeyError, and a value that is no dict
  (None for an empty file, a list, a string, a number) raises TypeError.
\<close>

fun subscript :: "pyval \<Rightarrow> string \<Rightarrow> exn + pyval" where
  "subscript (PDict kvs) k =
     (case map_of kvs k of None \<Rightarrow> Inl (KeyError k) | Some v \<Rightarrow> Inr v)"
| "subscript v k = Inl TypeError"

text \<open>
  \<open>x.get("key")\<close>: a dict answers None for an absent key; any other JSON value has no
  method \<open>get\<close> and raises AttributeError.
\<close>

fun py_get :: "pyval \<Rightarrow> string \<Rightarrow> exn + pyval" where
  "py_get (PDict kvs) k =
     (case map_of kvs k of None \<Rightarrow> Inr PNone | Some v \<Rightarrow> Inr v)"
| "py_get v k = Inl AttributeError"


fun is_dict :: "pyval \<Rightarrow> bool" where
  "is_dict (PDict kvs) = True"
| "is_dict v = False"

section \<open>HTTP requests and responses\<close>

datatype http_method = POST | GET

record request =
  meth :: http_method
  url :: pyval
  headers :: "(string \<times> string) list"
  data :: "pyval option"

text \<open>
  A response as the script reads it: the status code, \<open>.text\<close>, and the result of
  \<open>.json()\<close>, where None stands for the JSONDecodeError (a ValueError) it raises on a
  body that is not JSON.
\<close>

record response =
  status_code :: int
  resp_text :: string
  json :: "pyval option"

text \<open>
  \<open>Response.raise_for_status()\<close> of the requests library raises HTTPError for the client
  and server error codes, 400 to 599, and for no other status.
\<close>

definition raise_for_status :: "response \<Rightarrow> bool" where
  "raise_for_status r = (400 \<le> status_code r \<and> status_code r < 600)"

text \<open>The truth value of a response object is its \<open>ok\<close> property.\<close>

definition resp_truthy :: "response \<Rightarrow> bool" where
  "resp_truthy r = (\<not> raise_for_status r)"

section \<open>The table written by the exporter\<close>

text \<open>
  A cell is null or filled. The text that \<open>to_csv\<close> renders a filled cell with is not
  modelled.
\<close>

datatype cell = Null | Filled

record table =
  columns :: "string list"
  rows :: "cell list list"

section \<open>The world outside the script\<close>

text \<open>
  Everything the script reads from its environment:
  \<^item> \<open>load_yaml path\<close> is \<open>open(path)\<close> followed by \<open>yaml.safe_load\<close>;
  \<^item> \<open>http earlier rq\<close> is the remote API's answer to request \<open>rq\<close> after the requests
    \<open>earlier\<close>; None stands for a call of \<open>session.post\<close> or \<open>session.get\<close> that raises
    instead of returning a response (no connection, timeout, invalid URL), which is never
    an HTTPError: that one comes from \<open>raise_for_status\<close> alone;
  \<^item> \<open>str_format template args\<close> is \<open>template.format(**args)\<close>;
  \<^item> \<open>py_str v\<close> is \<open>str(v)\<close> for a value that is not a string;
  \<^item> \<open>writable path\<close> tells whether \<open>to_csv\<close> can write the file.
\<close>

record world =
  load_yaml :: "string \<Rightarrow> exn + pyval"
  http :: "request list \<Rightarrow> request \<Rightarrow> response option"
  str_format :: "string \<Rightarrow> (string \<times> pyval) list \<Rightarrow> exn + string"
  py_str :: "pyval \<Rightarrow> string"
  writable :: "string \<Rightarrow> bool"

section \<open>Log records\<close>

datatype level = INFO | WARNING | ERROR

text \<open>One constructor per message of the script, with the values its f-string prints.\<close>

datatype msg =
    ConfigNotFound string
  | Authenticating
  | AuthFailed int
  | StatusCode "int option"
  | ResponseContent "string option"
  | TokenMissing
  | MalformedResponse
  | FetchingIds
  | FetchFailed int
  | UnexpectedFormat
  | NoCharacters
  | IdNotFound
  | FetchingDetails pyval
  | DetailFetchFailed pyval int
  | DetailDecodeFailed pyval
  | NothingToWrite
  | Written string
  | ExportFailed

section \<open>The state the run changes\<close>

text \<open>
  The log, the requests issued so far, and the output files touched: a path with the
  table written to it, or with None when the write failed.
\<close>

record state =
  logged :: "(level \<times> msg) list"
  sent :: "request list"
  files :: "(string \<times> table option) list"

definition init :: state where
  "init = \<lparr>logged = [], sent = [], files = []\<rparr>"

definition logger :: "level \<Rightarrow> msg \<Rightarrow> state \<Rightarrow> state" where
  "logger l m st = st\<lparr>logged := logged st @ [(l, m)]\<rparr>"

definition send :: "world \<Rightarrow> request \<Rightarrow> state \<Rightarrow> response option \<times> state" where
  "send w rq st = (http w (sent st) rq, st\<lparr>sent := sent st @ [rq]\<rparr>)"

text \<open>How a stage of the run ends: it goes on with a value, returns early, or raises.\<close>

datatype 'a outcome = Continue 'a | Return | Raise exn

section \<open>Configuration (lines 19 to 31)\<close>

record settings =
  auth_url :: pyval
  login_data :: pyval
  characters_url :: pyval
  character_details_url :: pyval
  project_id :: pyval

text \<open>The five subscripts of lines 27 to 31, in the order of the source.\<close>

definition read_settings :: "pyval \<Rightarrow> exn + settings" where
  "read_settings config =
     (case subscript config ''auth_url'' of Inl e \<Rightarrow> Inl e | Inr a \<Rightarrow>
      case subscript config ''login_data'' of Inl e \<Rightarrow> Inl e | Inr l \<Rightarrow>
      case subscript config ''characters_url'' of Inl e \<Rightarrow> Inl e | Inr c \<Rightarrow>
      case subscript config ''character_details_url'' of Inl e \<Rightarrow> Inl e | Inr d \<Rightarrow>
      case subscript config ''project_id'' of Inl e \<Rightarrow> Inl e | Inr p \<Rightarrow>
        Inr \<lparr>auth_url = a, login_data = l, characters_url = c,
             character_details_url = d, project_id = p\<rparr>)"

section \<open>Strings built by the script\<close>

text \<open>\<open>template.format(...)\<close>: only a string has the method.\<close>

fun format_url :: "world \<Rightarrow> pyval \<Rightarrow> (string \<times> pyval) list \<Rightarrow> exn + string" where
  "format_url w (PStr t) args = str_format w t args"
| "format_url w v args = Inl AttributeError"

text \<open>A value inside an f-string: a string stands for itself, any other value for its \<open>str\<close>.\<close>

fun fstr :: "world \<Rightarrow> pyval \<Rightarrow> string" where
  "fstr w (PStr s) = s"
| "fstr w v = py_str w v"

text \<open>Line 60: \<open>headers = {"Authorization": f"Bearer {token}"}\<close>.\<close>

definition bearer :: "world \<Rightarrow> pyval \<Rightarrow> (string \<times> string) list" where
  "bearer w token = [(''Authorization'', ''Bearer '' @ fstr w token)]"

section \<open>Authentication (lines 35 to 58)\<close>

definition auth_request :: "settings \<Rightarrow> request" where
  "auth_request cfg =
     \<lparr>meth = POST, url = auth_url cfg,
      headers = [(''Content-Type'', ''application/x-www-form-urlencoded'')],
      data = Some (login_data cfg)\<rparr>"

definition authenticate :: "world \<Rightarrow> settings \<Rightarrow> state \<Rightarrow> pyval outcome \<times> state" where
  "authenticate w cfg st0 =
     (case send w (auth_request cfg) (logger INFO Authenticating st0) of
        (None, st) \<Rightarrow> (Raise RequestException, st)
      | (Some auth_response, st) \<Rightarrow>
          if raise_for_status auth_response then
            (Return,
             logger ERROR (ResponseContent
                 (if resp_truthy auth_response then Some (resp_text auth_response) else None))
               (logger ERROR (StatusCode
                   (if resp_truthy auth_response then Some (status_code auth_response) else None))
                 (logger ERROR (AuthFailed (status_code auth_response)) st)))
          else
            (case json auth_response of
               None \<Rightarrow>
                 (Return,
                  logger ERROR (ResponseContent (Some (resp_text auth_response)))
                    (logger ERROR MalformedResponse st))
             | Some body \<Rightarrow>
                 (case py_get body ''access_token'' of
                    Inl e \<Rightarrow> (Raise e, st)
                  | Inr token \<Rightarrow>
                      if \<not> truthy token then
                        (Return,
                         logger ERROR (ResponseContent (Some (resp_text auth_response)))
                           (logger ERROR TokenMissing st))
                      else (Continue token, st))))"

section \<open>The character list (lines 63 to 82)\<close>

definition get_request :: "string \<Rightarrow> (string \<times> string) list \<Rightarrow> request" where
  "get_request u hs = \<lparr>meth = GET, url = PStr u, headers = hs, data = None\<rparr>"

definition fetch_ids ::
  "world \<Rightarrow> settings \<Rightarrow> (string \<times> string) list \<Rightarrow> state \<Rightarrow> pyval list outcome \<times> state" where
  "fetch_ids w cfg hs st0 =
     (let st1 = logger INFO FetchingIds st0 in
      case format_url w (characters_url cfg) [(''projectId'', project_id cfg)] of
        Inl e \<Rightarrow> (Raise e, st1)
      | Inr u \<Rightarrow>
          (case send w (get_request u hs) st1 of
             (None, st) \<Rightarrow> (Raise RequestException, st)
           | (Some response, st) \<Rightarrow>
               if raise_for_status response then
                 (Return,
                  logger ERROR (ResponseContent (Some (resp_text response)))
                    (logger ERROR (FetchFailed (status_code response)) st))
               else
                 (case json response of
                    None \<Rightarrow> (Raise ValueError, st)
                  | Some (PList characters) \<Rightarrow>
                      if characters = [] then (Return, logger INFO NoCharacters st)
                      else (Continue characters, st)
                  | Some other \<Rightarrow> (Return, logger ERROR UnexpectedFormat st))))"

section \<open>The details of each character (lines 84 to 110)\<close>

text \<open>What one pass through the body of the loop does with its item.\<close>

datatype item = Appended pyval | Skipped | Failed exn

definition fetch_one ::
  "world \<Rightarrow> settings \<Rightarrow> (string \<times> string) list \<Rightarrow> pyval \<Rightarrow> state \<Rightarrow> item \<times> state" where
  "fetch_one w cfg hs character st0 =
     (case py_get character ''characterId'' of
        Inl e \<Rightarrow> (Failed e, st0)
      | Inr character_id \<Rightarrow>
          if \<not> truthy character_id then (Skipped, logger WARNING IdNotFound st0)
          else
            (let st1 = logger INFO (FetchingDetails character_id) st0 in
             case format_url w (character_details_url cfg)
                    [(''projectId'', project_id cfg), (''characterId'', character_id)] of
               Inl e \<Rightarrow> (Failed e, st1)
             | Inr u \<Rightarrow>
                 (case send w (get_request u hs) st1 of
                    (None, st) \<Rightarrow> (Failed RequestException, st)
                  | (Some details_response, st) \<Rightarrow>
                      if raise_for_status details_response then
                        (Skipped,
                         logger ERROR (ResponseContent (Some (resp_text details_response)))
                           (logger ERROR
                              (DetailFetchFailed character_id (status_code details_response)) st))
                      else
                        (case json details_response of
                           None \<Rightarrow> (Skipped, logger ERROR (DetailDecodeFailed character_id) st)
                         | Some character_data \<Rightarrow> (Appended character_data, st)))))"

text \<open>The \<open>for\<close> loop, with \<open>all_character_data\<close> as its accumulator.\<close>

fun fetch_details ::
  "world \<Rightarrow> settings \<Rightarrow> (string \<times> string) list \<Rightarrow> pyval list \<Rightarrow> pyval list \<Rightarrow> state
     \<Rightarrow> pyval list outcome \<times> state" where
  "fetch_details w cfg hs [] all_character_data st = (Continue all_character_data, st)"
| "fetch_details w cfg hs (character # rest) all_character_data st =
     (case fetch_one w cfg hs character st of
        (Appended character_data, st') \<Rightarrow>
          fetch_details w cfg hs rest (all_character_data @ [character_data]) st'
      | (Skipped, st') \<Rightarrow> fetch_details w cfg hs rest all_character_data st'
      | (Failed e, st') \<Rightarrow> (Raise e, st'))"

section \<open>The exporter (lines 119 to 132)\<close>

definition join_key :: "string \<Rightarrow> string \<Rightarrow> string" where
  "join_key prefix k = (if prefix = [] then k else prefix @ ''.'' @ k)"

text \<open>
  Modelled from the spec: \<open>pd.json_normalize\<close> and \<open>DataFrame.to_csv\<close> are code of the pandas
  library, which the repository calls and does not contain. The spec says that the exporter
  "flattens nested structures into a flat row per record with dotted-path column naming,
  computes the union of columns across all rows", that "missing keys per row are
  represented as empty/null cells", and that a record is "an arbitrarily-nested mapping";
  it names "failure during flattening" as an error of the exporter.
  \<^item> \<open>flatten\<close> gives the entries of one value under a path: a nested mapping contributes
    the entries of its values, at any depth, and any other value is one entry;
  \<^item> \<open>flatten_record\<close> is the flat row of a mapping: first the values directly under a
    key, then the entries of the nested mappings;
  \<^item> \<open>normalize_rows\<close> flattens every record, and fails with TypeError when a record is
    not a mapping;
  \<^item> \<open>cell_of\<close> is the cell of a flat row in a column: null when the row has no entry
    under the column's name or the entry is null, filled otherwise; of two entries with the
    same name the later one counts;
  \<^item> \<open>json_normalize\<close> is the table: the names of all rows as columns, each once, in the
    order of first appearance, and one row of cells per record.
\<close>

fun flatten :: "string \<Rightarrow> pyval \<Rightarrow> (string \<times> pyval) list" where
  "flatten prefix (PDict kvs) =
     concat (map (\<lambda>(k, v). flatten (join_key prefix k) v) kvs)"
| "flatten prefix v = [(prefix, v)]"

definition flatten_record :: "(string \<times> pyval) list \<Rightarrow> (string \<times> pyval) list" where
  "flatten_record kvs =
     filter (\<lambda>(k, v). \<not> is_dict v) kvs
     @ flatten [] (PDict (filter (\<lambda>(k, v). is_dict v) kvs))"

fun normalize_rows :: "pyval list \<Rightarrow> exn + (string \<times> pyval) list list" where
  "normalize_rows [] = Inr []"
| "normalize_rows (PDict kvs # records) =
     (case normalize_rows records of
        Inl e \<Rightarrow> Inl e
      | Inr flat \<Rightarrow> Inr (flatten_record kvs # flat))"
| "normalize_rows (v # records) = Inl TypeError"

definition cell_of :: "(string \<times> pyval) list \<Rightarrow> string \<Rightarrow> cell" where
  "cell_of row c =
     (case map_of (rev row) c of
        None \<Rightarrow> Null
      | Some v \<Rightarrow> if v = PNone then Null else Filled)"

definition json_normalize :: "pyval list \<Rightarrow> exn + table" where
  "json_normalize records =
     (case normalize_rows records of
        Inl e \<Rightarrow> Inl e
      | Inr flat \<Rightarrow>
          (let cols = rev (remdups (rev (concat (map (map fst) flat))))
           in Inr \<lparr>columns = cols, rows = map (\<lambda>row. map (cell_of row) cols) flat\<rparr>))"

text \<open>
  \<open>write_to_csv_with_pandas\<close>: the \<open>try\<close> covers both calls, and every exception of either
  is caught and logged, so the function always returns. When the flattening fails nothing
  is written; when the write fails the file may have been touched.
\<close>

definition write_to_csv_with_pandas :: "world \<Rightarrow> pyval list \<Rightarrow> string \<Rightarrow> state \<Rightarrow> state" where
  "write_to_csv_with_pandas w records output_file st =
     (case json_normalize records of
        Inl e \<Rightarrow> logger ERROR ExportFailed st
      | Inr df \<Rightarrow>
          if writable w output_file then
            logger INFO (Written output_file) (st\<lparr>files := files st @ [(output_file, Some df)]\<rparr>)
          else
            logger ERROR ExportFailed (st\<lparr>files := files st @ [(output_file, None)]\<rparr>))"



section \<open>The run (lines 7 to 116) and the entry point (lines 135 to 140)\<close>

text \<open>
  The result is the exception that leaves the function, or None when it returns, together
  with the final state.
\<close>

definition fetch_character_data :: "world \<Rightarrow> string \<Rightarrow> string \<Rightarrow> state \<Rightarrow> exn option \<times> state" where
  "fetch_character_data w config_path output_file st0 =
     (case load_yaml w config_path of
        Inl e \<Rightarrow>
          if e = FileNotFoundError then (None, logger ERROR (ConfigNotFound config_path) st0)
          else (Some e, st0)
      | Inr config \<Rightarrow>
          (case read_settings config of
             Inl e \<Rightarrow> (Some e, st0)
           | Inr cfg \<Rightarrow>
               (case authenticate w cfg st0 of
                  (Raise e, st1) \<Rightarrow> (Some e, st1)
                | (Return, st1) \<Rightarrow> (None, st1)
                | (Continue token, st1) \<Rightarrow>
                    (case fetch_ids w cfg (bearer w token) st1 of
                       (Raise e, st2) \<Rightarrow> (Some e, st2)
                     | (Return, st2) \<Rightarrow> (None, st2)
                     | (Continue characters, st2) \<Rightarrow>
                         (case fetch_details w cfg (bearer w token) characters [] st2 of
                            (Raise e, st3) \<Rightarrow> (Some e, st3)
                          | (Return, st3) \<Rightarrow> (None, st3)
                          | (Continue all_character_data, st3) \<Rightarrow>
                              if all_character_data \<noteq> [] then
                                (None,
                                 write_to_csv_with_pandas w all_character_data output_file st3)
                              else (None, logger INFO NothingToWrite st3))))))"

definition main :: "world \<Rightarrow> exn option \<times> state" where
  "main w = fetch_character_data w ''parse_config.yaml'' ''output.csv'' init"

section \<open>Sample worlds\<close>

text \<open>
  Concrete configurations and API behaviours on which the theorems below are instantiated.
  \<open>scripted answers\<close> is an API that gives its n-th answer to the n-th request, None being
  a request that fails without a response, and 404 once the script is over. In a sample
  world \<open>format\<close> leaves a template as it is, so the requests are told apart by their
  position.
\<close>

definition reply :: "int \<Rightarrow> string \<Rightarrow> pyval option \<Rightarrow> response" where
  "reply code body decoded = \<lparr>status_code = code, resp_text = body, json = decoded\<rparr>"

definition scripted :: "response option list \<Rightarrow> request list \<Rightarrow> request \<Rightarrow> response option" where
  "scripted answers earlier rq =
     (case drop (length earlier) answers of
        [] \<Rightarrow> Some (reply 404 ''Not Found'' None)
      | a # rest \<Rightarrow> a)"

definition sample_world :: "(exn + pyval) \<Rightarrow> response option list \<Rightarrow> world" where
  "sample_world config answers =
     \<lparr>load_yaml = (\<lambda>path. if path = ''parse_config.yaml'' then config else Inl FileNotFoundError),
      http = scripted answers,
      str_format = (\<lambda>template args. Inr template),
      py_str = (\<lambda>v. ''?''),
      writable = (\<lambda>path. True)\<rparr>"

definition sample_settings :: settings where
  "sample_settings =
     \<lparr>auth_url = PStr ''/token'',
      login_data = PDict [(''username'', PStr ''u''), (''password'', PStr ''p'')],
      characters_url = PStr ''/{projectId}/characters'',
      character_details_url = PStr ''/{projectId}/characters/{characterId}'',
      project_id = PInt 7\<rparr>"

definition sample_config :: pyval where
  "sample_config =
     PDict [(''auth_url'', auth_url sample_settings),
            (''login_data'', login_data sample_settings),
            (''characters_url'', characters_url sample_settings),
            (''character_details_url'', character_details_url sample_settings),
            (''project_id'', project_id sample_settings)]"

definition token_reply :: response where
  "token_reply = reply 200 ''{access_token: T}'' (Some (PDict [(''access_token'', PStr ''T'')]))"

definition summary :: "int \<Rightarrow> pyval" where
  "summary i = PDict [(''characterId'', PInt i)]"

definition detail :: "int \<Rightarrow> pyval" where
  "detail i = PDict [(''id'', PInt i)]"

definition three_summaries :: response where
  "three_summaries = reply 200 ''[...]'' (Some (PList [summary 1, summary 2, summary 3]))"

text \<open>
  The run of the spec's example: three summaries, and the details of the second character
  answered with status 500.
\<close>

definition three_world :: world where
  "three_world =
     sample_world (Inr sample_config)
       [Some token_reply, Some three_summaries,
        Some (reply 200 ''d1'' (Some (detail 1))),
        Some (reply 500 ''boom'' None),
        Some (reply 200 ''d3'' (Some (detail 3)))]"

text \<open>The state of the sample runs once the token is obtained.\<close>

definition authenticated :: state where
  "authenticated =
     \<lparr>logged = [(INFO, Authenticating)], sent = [auth_request sample_settings], files = []\<rparr>"


text \<open>The list endpoint answers with the empty array.\<close>

definition empty_world :: world where
  "empty_world =
     sample_world (Inr sample_config)
       [Some token_reply, Some (reply 200 ''[]'' (Some (PList [])))]"

text \<open>Three summaries, and no detail request succeeds: 500, a body that is not JSON, 404.\<close>

definition failing_world :: world where
  "failing_world =
     sample_world (Inr sample_config)
       [Some token_reply, Some three_summaries, Some (reply 500 ''boom'' None),
        Some (reply 200 ''<html>'' None)]"

text \<open>Three summaries, and details that are an array, null and a boolean.\<close>

definition shapes_world :: world where
  "shapes_world =
     sample_world (Inr sample_config)
       [Some token_reply, Some three_summaries,
        Some (reply 200 ''[1, 2]'' (Some (PList [PInt 1, PInt 2]))),
        Some (reply 200 ''null'' (Some PNone)),
        Some (reply 200 ''true'' (Some (PBool True)))]"

text \<open>
  The passes of the loop over a list of summaries, in order: what each pass did with its
  item and the state it left. The list ends at a pass that raises, as the loop does.
\<close>

fun passes ::
  "world \<Rightarrow> settings \<Rightarrow> (string \<times> string) list \<Rightarrow> pyval list \<Rightarrow> state \<Rightarrow> (item \<times> state) list" where
  "passes w cfg hs [] st = []"
| "passes w cfg hs (character # rest) st =
     (case fetch_one w cfg hs character st of
        (Failed e, st') \<Rightarrow> [(Failed e, st')]
      | (it, st') \<Rightarrow> (it, st') # passes w cfg hs rest st')"

text \<open>The records of the passes that appended one.\<close>

fun appended :: "(item \<times> state) list \<Rightarrow> pyval list" where
  "appended [] = []"
| "appended ((Appended d, st) # ps) = d # appended ps"
| "appended (p # ps) = appended ps"

text \<open>
  Three summaries; the details of the second character come with status 300 and a JSON
  body.
\<close>

definition multiple_choices_world :: world where
  "multiple_choices_world =
     sample_world (Inr sample_config)
       [Some token_reply, Some three_summaries,
        Some (reply 200 ''d1'' (Some (detail 1))),
        Some (reply 300 ''d2'' (Some (detail 2))),
        Some (reply 200 ''d3'' (Some (detail 3)))]"

text \<open>The second element of the character list is a number, not an object.\<close>

definition number_item_world :: world where
  "number_item_world =
     sample_world (Inr sample_config)
       [Some token_reply,
        Some (reply 200 ''[...]'' (Some (PList [summary 1, PInt 2, summary 3]))),
        Some (reply 200 ''d1'' (Some (detail 1))),
        Some (reply 200 ''d3'' (Some (detail 3)))]"

text \<open>The request for the details of the second character gets no response.\<close>

definition dropped_detail_world :: world where
  "dropped_detail_world =
     sample_world (Inr sample_config)
       [Some token_reply, Some three_summaries,
        Some (reply 200 ''d1'' (Some (detail 1))),
        None,
        Some (reply 200 ''d3'' (Some (detail 3)))]"

text \<open>The state of the sample runs once the character list is fetched.\<close>

definition listed :: state where
  "listed =
     \<lparr>logged = [(INFO, Authenticating), (INFO, FetchingIds)],
      sent = [auth_request sample_settings,
              get_request ''/{projectId}/characters'' [(''Authorization'', ''Bearer T'')]],
      files = []\<rparr>"

text \<open>
  Authentication requests that fail: no response at all, status 401, a body that is not
  JSON, and a JSON object without a token.
\<close>

definition offline_world :: world where
  "offline_world = sample_world (Inr sample_config) [None]"

definition unauthorized_world :: world where
  "unauthorized_world =
     sample_world (Inr sample_config) [Some (reply 401 ''denied'' (Some (PDict [])))]"

definition html_world :: world where
  "html_world = sample_world (Inr sample_config) [Some (reply 200 ''<html>'' None)]"

definition no_token_world :: world where
  "no_token_world =
     sample_world (Inr sample_config)
       [Some (reply 200 ''{access_token: null}'' (Some (PDict [(''access_token'', PNone)])))]"

text \<open>
  Authentication answered with status 300 and a token, and with a JSON array in place of an
  object; in the first world the character list is empty.
\<close>

definition multiple_choices_auth_world :: world where
  "multiple_choices_auth_world =
     sample_world (Inr sample_config)
       [Some (reply 300 ''{access_token: T}'' (Some (PDict [(''access_token'', PStr ''T'')]))),
        Some (reply 200 ''[]'' (Some (PList [])))]"

definition array_auth_world :: world where
  "array_auth_world =
     sample_world (Inr sample_config) [Some (reply 200 ''[]'' (Some (PList [])))]"

text \<open>
  Configurations that make the run raise: a file without the keys, an empty file, a file
  that is not YAML; and a character list whose body is not JSON.
\<close>

definition no_keys_world :: world where
  "no_keys_world = sample_world (Inr (PDict [])) []"

definition empty_file_world :: world where
  "empty_file_world = sample_world (Inr PNone) []"

definition bad_yaml_world :: world where
  "bad_yaml_world = sample_world (Inl YAMLError) []"

definition html_list_world :: world where
  "html_list_world =
     sample_world (Inr sample_config) [Some token_reply, Some (reply 200 ''<html>'' None)]"



section \<open>Basic facts about the state\<close>

lemmas sample_defs = three_world_def sample_world_def sample_config_def sample_settings_def
  token_reply_def three_summaries_def summary_def detail_def reply_def scripted_def

lemmas run_defs = main_def fetch_character_data_def read_settings_def authenticate_def
  fetch_ids_def fetch_one_def write_to_csv_with_pandas_def json_normalize_def
  flatten_record_def cell_of_def
  auth_request_def get_request_def bearer_def send_def logger_def init_def
  raise_for_status_def resp_truthy_def join_key_def

lemma logger_simps:
  "logged (logger l m st) = logged st @ [(l, m)]"
  "sent (logger l m st) = sent st"
  "files (logger l m st) = files st"
  by (simp_all add: logger_def)

lemma map_of_filter_key: "map_of (filter (\<lambda>(k, x). k \<noteq> c) kvs) c = None"
  by (induction kvs) auto

text \<open>No stage before the exporter touches a file, and each stage only appends requests.\<close>

lemma authenticate_frame:
  assumes "authenticate w cfg st = (r, st')"
  shows "files st' = files st" and "sent st' = sent st @ [auth_request cfg]"
  using assms
  by (auto simp: authenticate_def send_def logger_simps
      split: option.splits if_splits sum.splits)

lemma fetch_ids_frame:
  assumes "fetch_ids w cfg hs st = (r, st')"
  shows "files st' = files st"
    and "\<exists>new. sent st' = sent st @ new \<and> (\<forall>rq \<in> set new. meth rq = GET \<and> headers rq = hs)"
  using assms
  by (auto simp: fetch_ids_def send_def logger_simps get_request_def Let_def
      split: option.splits if_splits sum.splits pyval.splits)

lemma fetch_one_frame:
  assumes "fetch_one w cfg hs c st = (r, st')"
  shows "files st' = files st"
    and "\<exists>new. sent st' = sent st @ new \<and> (\<forall>rq \<in> set new. meth rq = GET \<and> headers rq = hs)"
  using assms
  by (auto simp: fetch_one_def send_def logger_simps get_request_def Let_def
      split: option.splits if_splits sum.splits pyval.splits)

lemma fetch_details_frame:
  assumes "fetch_details w cfg hs cs acc st = (r, st')"
  shows "files st' = files st
    \<and> (\<exists>new. sent st' = sent st @ new \<and> (\<forall>rq \<in> set new. meth rq = GET \<and> headers rq = hs))"
  using assms
proof (induction cs arbitrary: acc st)
  case Nil
  then show ?case by simp
next
  case (Cons c cs)
  obtain it st1 where one: "fetch_one w cfg hs c st = (it, st1)"
    by (cases "fetch_one w cfg hs c st")
  from fetch_one_frame [OF one] obtain new1 where
    f1: "files st1 = files st" and s1: "sent st1 = sent st @ new1"
    and h1: "\<forall>rq \<in> set new1. meth rq = GET \<and> headers rq = hs"
    by blast
  show ?case
  proof (cases it)
    case (Appended d)
    with Cons.prems one have "fetch_details w cfg hs cs (acc @ [d]) st1 = (r, st')" by simp
    from Cons.IH [OF this] f1 s1 h1 show ?thesis by auto
  next
    case Skipped
    with Cons.prems one have "fetch_details w cfg hs cs acc st1 = (r, st')" by simp
    from Cons.IH [OF this] f1 s1 h1 show ?thesis by auto
  next
    case (Failed e)
    with Cons.prems one have "st' = st1" by simp
    with f1 s1 h1 show ?thesis by auto
  qed
qed

text \<open>A response that passes the status check and carries a truthy token authenticates.\<close>

lemma authenticate_token:
  assumes "http w (sent st) (auth_request cfg) = Some auth_response"
      and "\<not> raise_for_status auth_response"
      and "json auth_response = Some body"
      and "py_get body ''access_token'' = Inr token"
      and "truthy token"
  shows "authenticate w cfg st =
           (Continue token, (logger INFO Authenticating st)\<lparr>sent := sent st @ [auth_request cfg]\<rparr>)"
  using assms by (simp add: authenticate_def send_def logger_simps)

section \<open>The configuration file\<close>

text \<open>
  C8. If the configuration file path does not resolve, the run logs the ConfigNotFound error
  and returns without raising: the result is None (no exception), the only change of the
  state is the one ERROR record, so no request is issued and no output file is touched.
\<close>

theorem config_not_found:
  assumes "load_yaml w config_path = Inl FileNotFoundError"
  shows "fetch_character_data w config_path output_file st =
           (None, logger ERROR (ConfigNotFound config_path) st)
         \<and> sent (snd (fetch_character_data w config_path output_file st)) = sent st
         \<and> files (snd (fetch_character_data w config_path output_file st)) = files st"
  using assms by (simp add: fetch_character_data_def logger_simps)

theorem config_not_found_witness:
  "load_yaml (sample_world (Inl FileNotFoundError) []) ''parse_config.yaml''
     = Inl FileNotFoundError
   \<and> main (sample_world (Inl FileNotFoundError) []) =
       (None, \<lparr>logged = [(ERROR, ConfigNotFound ''parse_config.yaml'')], sent = [], files = []\<rparr>)"
  using config_not_found [of "sample_world (Inl FileNotFoundError) []" "''parse_config.yaml''"
      "''output.csv''" init]
  by (simp add: main_def sample_world_def init_def logger_def)

section \<open>The bearer token\<close>

text \<open>
  C2. When the authentication response passes the status check and its JSON body holds the
  string T as access_token, every request the run issues after the authentication POST,
  that is the character-list GET and each character-detail GET, is a GET whose headers are
  exactly Authorization: Bearer T. This holds however the run ends.
\<close>

theorem bearer_on_every_request:
  assumes "load_yaml w config_path = Inr config"
      and "read_settings config = Inr cfg"
      and "http w (sent st) (auth_request cfg) = Some auth_response"
      and "\<not> raise_for_status auth_response"
      and "json auth_response = Some body"
      and "py_get body ''access_token'' = Inr (PStr T)"
  shows "\<exists>later. sent (snd (fetch_character_data w config_path output_file st))
                  = sent st @ auth_request cfg # later
          \<and> (\<forall>rq \<in> set later. meth rq = GET
                \<and> headers rq = [(''Authorization'', ''Bearer '' @ T)])"
proof (cases "T = []")
  case True
  with assms have "authenticate w cfg st =
      (Return, logger ERROR (ResponseContent (Some (resp_text auth_response)))
         (logger ERROR TokenMissing
            ((logger INFO Authenticating st)\<lparr>sent := sent st @ [auth_request cfg]\<rparr>)))"
    by (simp add: authenticate_def send_def logger_simps)
  with assms(1,2) show ?thesis
    by (simp add: fetch_character_data_def logger_simps)
next
  case False
  define hs where "hs = [(''Authorization'', ''Bearer '' @ T)]"
  define st1 where
    "st1 = (logger INFO Authenticating st)\<lparr>sent := sent st @ [auth_request cfg]\<rparr>"
  have hs: "bearer w (PStr T) = hs" by (simp add: bearer_def hs_def)
  have s1: "sent st1 = sent st @ [auth_request cfg]" by (simp add: st1_def)
  from False assms have auth: "authenticate w cfg st = (Continue (PStr T), st1)"
    unfolding st1_def by (intro authenticate_token) simp_all
  obtain r2 st2 where ids: "fetch_ids w cfg hs st1 = (r2, st2)"
    by (cases "fetch_ids w cfg hs st1")
  from fetch_ids_frame(2) [OF ids] obtain new2 where
    s2: "sent st2 = sent st1 @ new2" and h2: "\<forall>rq \<in> set new2. meth rq = GET \<and> headers rq = hs"
    by blast
  show ?thesis
  proof (cases r2)
    case (Continue characters)
    obtain r3 st3 where det: "fetch_details w cfg hs characters [] st2 = (r3, st3)"
      by (cases "fetch_details w cfg hs characters [] st2")
    from fetch_details_frame [OF det] obtain new3 where
      s3: "sent st3 = sent st2 @ new3"
      and h3: "\<forall>rq \<in> set new3. meth rq = GET \<and> headers rq = hs"
      by blast
    have "sent (snd (fetch_character_data w config_path output_file st)) = sent st3"
      using assms(1,2) auth ids det Continue hs
      by (cases r3)
        (simp_all add: fetch_character_data_def write_to_csv_with_pandas_def logger_simps
           split: sum.splits)
    with s1 s2 s3 h2 h3 show ?thesis
      unfolding hs_def by (intro exI [of _ "new2 @ new3"]) auto
  next
    case Return
    with assms(1,2) auth ids hs
    have "sent (snd (fetch_character_data w config_path output_file st)) = sent st2"
      by (simp add: fetch_character_data_def)
    with s1 s2 h2 show ?thesis
      unfolding hs_def by (intro exI [of _ new2]) auto
  next
    case (Raise e)
    with assms(1,2) auth ids hs
    have "sent (snd (fetch_character_data w config_path output_file st)) = sent st2"
      by (simp add: fetch_character_data_def)
    with s1 s2 h2 show ?thesis
      unfolding hs_def by (intro exI [of _ new2]) auto
  qed
qed

theorem bearer_on_every_request_witness:
  "\<exists>later. sent (snd (fetch_character_data three_world ''parse_config.yaml'' ''output.csv'' init))
              = sent init @ auth_request sample_settings # later
        \<and> (\<forall>rq \<in> set later. meth rq = GET
              \<and> headers rq = [(''Authorization'', ''Bearer '' @ ''T'')])"
  by (rule bearer_on_every_request [where config = sample_config and auth_response = token_reply
        and body = "PDict [(''access_token'', PStr ''T'')]"])
     (simp_all add: sample_defs read_settings_def init_def raise_for_status_def auth_request_def)

section \<open>Summaries without a usable identifier\<close>

text \<open>
  C9. A summary whose characterId is present but falsy (0, the empty string, null, False, and
  any other value Python counts as false) is treated exactly as the same summary without the
  field: the pass logs the warning, skips the item and issues no request.
\<close>

theorem falsy_id_is_skipped:
  assumes "map_of kvs ''characterId'' = Some v" and "\<not> truthy v"
  shows "fetch_one w cfg hs (PDict kvs) st = (Skipped, logger WARNING IdNotFound st)
       \<and> fetch_one w cfg hs (PDict kvs) st
           = fetch_one w cfg hs (PDict (filter (\<lambda>(k, x). k \<noteq> ''characterId'') kvs)) st
       \<and> sent (snd (fetch_one w cfg hs (PDict kvs) st)) = sent st"
  using assms by (simp add: fetch_one_def map_of_filter_key logger_simps)

theorem falsy_id_is_skipped_witness:
  "fetch_one three_world sample_settings [] (PDict [(''characterId'', PInt 0)]) init
     = (Skipped, logger WARNING IdNotFound init)
   \<and> fetch_one three_world sample_settings [] (PDict [(''characterId'', PStr [])]) init
     = (Skipped, logger WARNING IdNotFound init)
   \<and> fetch_one three_world sample_settings [] (PDict [(''characterId'', PNone)]) init
     = (Skipped, logger WARNING IdNotFound init)
   \<and> fetch_one three_world sample_settings [] (PDict [(''characterId'', PBool False)]) init
     = (Skipped, logger WARNING IdNotFound init)"
  using
    falsy_id_is_skipped [of "[(''characterId'', PInt 0)]" "PInt 0" three_world sample_settings "[]" init]
    falsy_id_is_skipped [of "[(''characterId'', PStr [])]" "PStr []" three_world sample_settings "[]" init]
    falsy_id_is_skipped [of "[(''characterId'', PNone)]" "PNone" three_world sample_settings "[]" init]
    falsy_id_is_skipped [of "[(''characterId'', PBool False)]" "PBool False" three_world
      sample_settings "[]" init]
  by simp

section \<open>The shape of the character list\<close>


lemma fetch_ids_empty:
  assumes "format_url w (characters_url cfg) [(''projectId'', project_id cfg)] = Inr u"
      and "http w (sent st1) (get_request u hs) = Some response"
      and "\<not> raise_for_status response"
      and "json response = Some (PList [])"
  shows "fetch_ids w cfg hs st1 =
           (Return, logger INFO NoCharacters
              ((logger INFO FetchingIds st1)\<lparr>sent := sent st1 @ [get_request u hs]\<rparr>))"
  using assms
  by (simp_all add: fetch_ids_def send_def logger_simps Let_def)





section \<open>Nothing to export\<close>

text \<open>
  C6. After a successful authentication: if the character list is the empty array, the run
  logs NoCharacters at INFO level and returns; and if the loop over a non-empty list ends
  with no detail record collected, the run logs NothingToWrite at INFO level and returns.
  In both cases no exception leaves the run and the files are those at the start, so the
  exporter was not invoked.
\<close>

theorem nothing_collected_nothing_written:
  assumes "load_yaml w config_path = Inr config"
      and "read_settings config = Inr cfg"
      and "authenticate w cfg st = (Continue token, st1)"
  shows "(format_url w (characters_url cfg) [(''projectId'', project_id cfg)] = Inr u
          \<and> http w (sent st1) (get_request u (bearer w token)) = Some response
          \<and> \<not> raise_for_status response
          \<and> json response = Some (PList [])
          \<longrightarrow> fst (fetch_character_data w config_path output_file st) = None
            \<and> logged (snd (fetch_character_data w config_path output_file st))
                = logged st1 @ [(INFO, FetchingIds), (INFO, NoCharacters)]
            \<and> sent (snd (fetch_character_data w config_path output_file st))
                = sent st1 @ [get_request u (bearer w token)]
            \<and> files (snd (fetch_character_data w config_path output_file st)) = files st)
       \<and> (fetch_ids w cfg (bearer w token) st1 = (Continue characters, st2)
          \<and> fetch_details w cfg (bearer w token) characters [] st2 = (Continue [], st3)
          \<longrightarrow> fst (fetch_character_data w config_path output_file st) = None
            \<and> logged (snd (fetch_character_data w config_path output_file st))
                = logged st3 @ [(INFO, NothingToWrite)]
            \<and> sent (snd (fetch_character_data w config_path output_file st)) = sent st3
            \<and> files (snd (fetch_character_data w config_path output_file st)) = files st)"
proof (intro conjI impI)
  assume a: "format_url w (characters_url cfg) [(''projectId'', project_id cfg)] = Inr u
          \<and> http w (sent st1) (get_request u (bearer w token)) = Some response
          \<and> \<not> raise_for_status response
          \<and> json response = Some (PList [])"
  have run: "fetch_character_data w config_path output_file st =
          (None, logger INFO NoCharacters
             ((logger INFO FetchingIds st1)\<lparr>sent := sent st1 @ [get_request u (bearer w token)]\<rparr>))"
    using assms fetch_ids_empty [of w cfg u st1 "bearer w token" response] a
    by (simp add: fetch_character_data_def)
  have f: "files st1 = files st"
    using authenticate_frame(1) [OF assms(3)] .
  show "fst (fetch_character_data w config_path output_file st) = None"
    using run by simp
  show "logged (snd (fetch_character_data w config_path output_file st))
                = logged st1 @ [(INFO, FetchingIds), (INFO, NoCharacters)]"
    using run by (simp add: logger_simps)
  show "sent (snd (fetch_character_data w config_path output_file st))
                = sent st1 @ [get_request u (bearer w token)]"
    using run by (simp add: logger_simps)
  show "files (snd (fetch_character_data w config_path output_file st)) = files st"
    using run f by (simp add: logger_simps)
next
  assume b: "fetch_ids w cfg (bearer w token) st1 = (Continue characters, st2)
          \<and> fetch_details w cfg (bearer w token) characters [] st2 = (Continue [], st3)"
  have run: "fetch_character_data w config_path output_file st
               = (None, logger INFO NothingToWrite st3)"
    using assms b by (simp add: fetch_character_data_def)
  have f: "files st3 = files st"
    using authenticate_frame(1) [OF assms(3)] fetch_ids_frame(1) [of w cfg "bearer w token" st1]
      fetch_details_frame [of w cfg "bearer w token" characters "[]" st2] b
    by simp
  show "fst (fetch_character_data w config_path output_file st) = None"
    using run by simp
  show "logged (snd (fetch_character_data w config_path output_file st))
                = logged st3 @ [(INFO, NothingToWrite)]"
    using run by (simp add: logger_simps)
  show "sent (snd (fetch_character_data w config_path output_file st)) = sent st3"
    using run by (simp add: logger_simps)
  show "files (snd (fetch_character_data w config_path output_file st)) = files st"
    using run f by (simp add: logger_simps)
qed

theorem nothing_collected_nothing_written_witness:
  "fst (main empty_world) = None
   \<and> logged (snd (main empty_world))
       = [(INFO, Authenticating), (INFO, FetchingIds), (INFO, NoCharacters)]
   \<and> files (snd (main empty_world)) = []
   \<and> fst (main failing_world) = None
   \<and> last (logged (snd (main failing_world))) = (INFO, NothingToWrite)
   \<and> files (snd (main failing_world)) = []"
proof -
  let ?list = "get_request ''/{projectId}/characters'' [(''Authorization'', ''Bearer T'')]"
  let ?st2 = "\<lparr>logged = [(INFO, Authenticating), (INFO, FetchingIds)],
              sent = [auth_request sample_settings, ?list], files = []\<rparr>"
  have a: "fst (main empty_world) = None
       \<and> logged (snd (main empty_world))
           = logged authenticated @ [(INFO, FetchingIds), (INFO, NoCharacters)]
       \<and> sent (snd (main empty_world))
           = sent authenticated @ [get_request ''/{projectId}/characters'' (bearer empty_world (PStr ''T''))]
       \<and> files (snd (main empty_world)) = files init"
    unfolding main_def
    by (rule nothing_collected_nothing_written [where config = sample_config
          and cfg = sample_settings and response = "reply 200 ''[]'' (Some (PList []))"
          and ?st1.0 = authenticated and token = "PStr ''T''"
          and u = "''/{projectId}/characters''",
          THEN conjunct1, THEN mp])
      (simp_all add: empty_world_def authenticated_def sample_defs run_defs)
  have b: "fst (main failing_world) = None
       \<and> logged (snd (main failing_world))
           = logged (snd (fetch_details failing_world sample_settings
                (bearer failing_world (PStr ''T'')) [summary 1, summary 2, summary 3] [] ?st2))
             @ [(INFO, NothingToWrite)]
       \<and> sent (snd (main failing_world))
           = sent (snd (fetch_details failing_world sample_settings
                (bearer failing_world (PStr ''T'')) [summary 1, summary 2, summary 3] [] ?st2))
       \<and> files (snd (main failing_world)) = files init"
    unfolding main_def
    by (rule nothing_collected_nothing_written [where config = sample_config
          and cfg = sample_settings and ?st1.0 = authenticated and token = "PStr ''T''"
          and characters = "[summary 1, summary 2, summary 3]" and ?st2.0 = ?st2
          and ?st3.0 = "snd (fetch_details failing_world sample_settings
                (bearer failing_world (PStr ''T'')) [summary 1, summary 2, summary 3] [] ?st2)",
          THEN conjunct2, THEN mp])
      (simp_all add: failing_world_def authenticated_def sample_defs run_defs)
  from a b show ?thesis
    by (simp add: authenticated_def init_def)
qed

section \<open>Detail records of any shape\<close>

text \<open>
  C10. A detail response that passes the status check and whose body decodes as JSON is
  appended to the collected records whatever the decoded value is: the theorem puts no
  condition on \<open>character_data\<close>, so arrays, strings, numbers, booleans and null are
  collected as objects are, and the loop goes on with the record appended.
\<close>

theorem any_json_is_collected:
  assumes "py_get character ''characterId'' = Inr character_id"
      and "truthy character_id"
      and "format_url w (character_details_url cfg)
             [(''projectId'', project_id cfg), (''characterId'', character_id)] = Inr u"
      and "http w (sent st) (get_request u hs) = Some details_response"
      and "\<not> raise_for_status details_response"
      and "json details_response = Some character_data"
  shows "fetch_one w cfg hs character st =
           (Appended character_data,
            (logger INFO (FetchingDetails character_id) st)\<lparr>sent := sent st @ [get_request u hs]\<rparr>)
       \<and> fetch_details w cfg hs (character # rest) all_character_data st =
           fetch_details w cfg hs rest (all_character_data @ [character_data])
            ((logger INFO (FetchingDetails character_id) st)\<lparr>sent := sent st @ [get_request u hs]\<rparr>)"
  using assms by (simp add: fetch_one_def send_def logger_simps Let_def)

theorem any_json_is_collected_witness:
  "fetch_details shapes_world sample_settings [] [summary 1, summary 2, summary 3] []
     \<lparr>logged = [], sent = [auth_request sample_settings, get_request ''/'' []], files = []\<rparr>
   = (Continue [PList [PInt 1, PInt 2], PNone, PBool True],
      \<lparr>logged = [(INFO, FetchingDetails (PInt 1)), (INFO, FetchingDetails (PInt 2)),
                 (INFO, FetchingDetails (PInt 3))],
       sent = [auth_request sample_settings, get_request ''/'' [],
               get_request ''/{projectId}/characters/{characterId}'' [],
               get_request ''/{projectId}/characters/{characterId}'' [],
               get_request ''/{projectId}/characters/{characterId}'' []],
       files = []\<rparr>)"
proof -
  let ?d = "get_request ''/{projectId}/characters/{characterId}'' []"
  let ?s0 = "\<lparr>logged = [], sent = [auth_request sample_settings, get_request ''/'' []],
              files = []\<rparr>"
  let ?s1 = "\<lparr>logged = [(INFO, FetchingDetails (PInt 1))],
              sent = [auth_request sample_settings, get_request ''/'' [], ?d], files = []\<rparr>"
  let ?s2 = "\<lparr>logged = [(INFO, FetchingDetails (PInt 1)), (INFO, FetchingDetails (PInt 2))],
              sent = [auth_request sample_settings, get_request ''/'' [], ?d, ?d], files = []\<rparr>"
  have 1: "fetch_details shapes_world sample_settings [] [summary 1, summary 2, summary 3] [] ?s0
         = fetch_details shapes_world sample_settings [] [summary 2, summary 3]
             ([] @ [PList [PInt 1, PInt 2]]) ?s1"
    using any_json_is_collected [of "summary 1" "PInt 1" shapes_world sample_settings
        "''/{projectId}/characters/{characterId}''" ?s0 "[]"
        "reply 200 ''[1, 2]'' (Some (PList [PInt 1, PInt 2]))" "PList [PInt 1, PInt 2]"
        "[summary 2, summary 3]" "[]"]
    by (simp add: shapes_world_def sample_defs raise_for_status_def logger_def)
  have 2: "fetch_details shapes_world sample_settings [] [summary 2, summary 3]
             [PList [PInt 1, PInt 2]] ?s1
         = fetch_details shapes_world sample_settings [] [summary 3]
             ([PList [PInt 1, PInt 2]] @ [PNone]) ?s2"
    using any_json_is_collected [of "summary 2" "PInt 2" shapes_world sample_settings
        "''/{projectId}/characters/{characterId}''" ?s1 "[]"
        "reply 200 ''null'' (Some PNone)" "PNone" "[summary 3]" "[PList [PInt 1, PInt 2]]"]
    by (simp add: shapes_world_def sample_defs raise_for_status_def logger_def)
  have 3: "fetch_details shapes_world sample_settings [] [summary 3]
             [PList [PInt 1, PInt 2], PNone] ?s2
         = (Continue [PList [PInt 1, PInt 2], PNone, PBool True],
            \<lparr>logged = [(INFO, FetchingDetails (PInt 1)), (INFO, FetchingDetails (PInt 2)),
                 (INFO, FetchingDetails (PInt 3))],
             sent = [auth_request sample_settings, get_request ''/'' [], ?d, ?d, ?d],
             files = []\<rparr>)"
    using any_json_is_collected [of "summary 3" "PInt 3" shapes_world sample_settings
        "''/{projectId}/characters/{characterId}''" ?s2 "[]"
        "reply 200 ''true'' (Some (PBool True))" "PBool True" "[]" "[PList [PInt 1, PInt 2], PNone]"]
    by (simp add: shapes_world_def sample_defs raise_for_status_def logger_def)
  from 1 2 3 show ?thesis by simp
qed

section \<open>Failures of single items\<close>

lemma scripted_answered: "None \<notin> set answers \<Longrightarrow> scripted answers earlier rq \<noteq> None"
proof (cases "drop (length earlier) answers")
  case Nil
  then show ?thesis by (simp add: scripted_def)
next
  case (Cons a rest)
  assume none: "None \<notin> set answers"
  have "a \<in> set (drop (length earlier) answers)" using Cons by simp
  then have "a \<in> set answers" by (rule in_set_dropD)
  with none have "a \<noteq> None" by metis
  with Cons show ?thesis by (simp add: scripted_def)
qed

lemma fetch_one_cases:
  assumes "\<And>earlier rq. http w earlier rq \<noteq> None"
      and "character_details_url cfg = PStr t"
      and "\<And>args. \<exists>u. str_format w t args = Inr u"
  shows "\<exists>st'. fetch_one w cfg hs (PDict kvs) st = (Skipped, st')
            \<or> (\<exists>d. fetch_one w cfg hs (PDict kvs) st = (Appended d, st'))"
proof -
  obtain cid where cid: "py_get (PDict kvs) ''characterId'' = Inr cid"
    by (cases "map_of kvs ''characterId''") auto
  obtain u where u: "format_url w (character_details_url cfg)
      [(''projectId'', project_id cfg), (''characterId'', cid)] = Inr u"
    using assms(2,3) by (metis format_url.simps(1))
  obtain r where r: "http w (sent st) (get_request u hs) = Some r"
    using assms(1) by (metis option.exhaust)
  show ?thesis
    using cid u r
    by (cases "json r") (auto simp: fetch_one_def send_def logger_simps Let_def simp del: py_get.simps)
qed

lemma fetch_details_passes:
  assumes "\<forall>c \<in> set characters. is_dict c"
      and "\<And>earlier rq. http w earlier rq \<noteq> None"
      and "character_details_url cfg = PStr t"
      and "\<And>args. \<exists>u. str_format w t args = Inr u"
  shows "length (passes w cfg hs characters st) = length characters
       \<and> (\<forall>p \<in> set (passes w cfg hs characters st). \<forall>e. fst p \<noteq> Failed e)
       \<and> fetch_details w cfg hs characters acc st =
           (Continue (acc @ appended (passes w cfg hs characters st)),
            if characters = [] then st else snd (last (passes w cfg hs characters st)))"
  using assms(1)
proof (induction characters arbitrary: acc st)
  case Nil
  then show ?case by simp
next
  case (Cons c cs)
  then obtain kvs where c: "c = PDict kvs" by (cases c) auto
  from Cons.prems have cs: "\<forall>c \<in> set cs. is_dict c" by simp
  from fetch_one_cases [OF assms(2-4), of hs kvs st] obtain st' where
    one: "fetch_one w cfg hs c st = (Skipped, st')
            \<or> (\<exists>d. fetch_one w cfg hs c st = (Appended d, st'))"
    unfolding c by blast
  then show ?case
  proof
    assume s: "fetch_one w cfg hs c st = (Skipped, st')"
    with Cons.IH [OF cs, of st' acc] show ?thesis
      by (cases cs) auto
  next
    assume "\<exists>d. fetch_one w cfg hs c st = (Appended d, st')"
    then obtain d where a: "fetch_one w cfg hs c st = (Appended d, st')" by blast
    with Cons.IH [OF cs, of st' "acc @ [d]"] show ?thesis
      by (cases cs) auto
  qed
qed

text \<open>
  C1, as the code has it. Let every summary of the list be a JSON object, let every request
  get a response, and let the detail URL template format. Then every item gets its pass
  and no pass raises; the loop ends with the records of the passes that appended one, in
  the order of the list, after the records collected before; and a pass over a summary does
  exactly this: without a truthy identifier it logs a warning and skips the item with no
  request; with a detail response of status 400 to 599 it logs two errors and skips the item;
  with a response of any other status whose body is not JSON it logs an error and skips
  the item; and otherwise it appends the decoded body.
\<close>

theorem failed_items_are_skipped:
  assumes "\<forall>c \<in> set characters. is_dict c"
      and "\<And>earlier rq. http w earlier rq \<noteq> None"
      and "character_details_url cfg = PStr t"
      and "\<And>args. \<exists>u. str_format w t args = Inr u"
  shows "length (passes w cfg hs characters st) = length characters
       \<and> fst (fetch_details w cfg hs characters acc st)
           = Continue (acc @ appended (passes w cfg hs characters st))
       \<and> (\<forall>kvs s. \<exists>cid u r.
             py_get (PDict kvs) ''characterId'' = Inr cid
           \<and> str_format w t [(''projectId'', project_id cfg), (''characterId'', cid)] = Inr u
           \<and> http w (sent s) (get_request u hs) = Some r
           \<and> fetch_one w cfg hs (PDict kvs) s =
               (if \<not> truthy cid then (Skipped, logger WARNING IdNotFound s)
                else if raise_for_status r then
                  (Skipped,
                   logger ERROR (ResponseContent (Some (resp_text r)))
                     (logger ERROR (DetailFetchFailed cid (status_code r))
                        ((logger INFO (FetchingDetails cid) s)
                           \<lparr>sent := sent s @ [get_request u hs]\<rparr>)))
                else
                  (case json r of
                     None \<Rightarrow>
                       (Skipped,
                        logger ERROR (DetailDecodeFailed cid)
                          ((logger INFO (FetchingDetails cid) s)
                             \<lparr>sent := sent s @ [get_request u hs]\<rparr>))
                   | Some d \<Rightarrow>
                       (Appended d,
                        (logger INFO (FetchingDetails cid) s)
                          \<lparr>sent := sent s @ [get_request u hs]\<rparr>))))"
proof (intro conjI allI)
  show "length (passes w cfg hs characters st) = length characters"
    using fetch_details_passes [OF assms] by blast
  show "fst (fetch_details w cfg hs characters acc st)
           = Continue (acc @ appended (passes w cfg hs characters st))"
    using fetch_details_passes [OF assms, of hs st acc] by simp
next
  fix kvs and s :: state
  obtain cid where cid: "py_get (PDict kvs) ''characterId'' = Inr cid"
    by (cases "map_of kvs ''characterId''") auto
  obtain u where u: "str_format w t [(''projectId'', project_id cfg), (''characterId'', cid)] = Inr u"
    using assms(4) by blast
  obtain r where r: "http w (sent s) (get_request u hs) = Some r"
    using assms(2) by (metis option.exhaust)
  have "fetch_one w cfg hs (PDict kvs) s =
               (if \<not> truthy cid then (Skipped, logger WARNING IdNotFound s)
                else if raise_for_status r then
                  (Skipped,
                   logger ERROR (ResponseContent (Some (resp_text r)))
                     (logger ERROR (DetailFetchFailed cid (status_code r))
                        ((logger INFO (FetchingDetails cid) s)
                           \<lparr>sent := sent s @ [get_request u hs]\<rparr>)))
                else
                  (case json r of
                     None \<Rightarrow>
                       (Skipped,
                        logger ERROR (DetailDecodeFailed cid)
                          ((logger INFO (FetchingDetails cid) s)
                             \<lparr>sent := sent s @ [get_request u hs]\<rparr>))
                   | Some d \<Rightarrow>
                       (Appended d,
                        (logger INFO (FetchingDetails cid) s)
                          \<lparr>sent := sent s @ [get_request u hs]\<rparr>)))"
    using cid u r assms(3)
    by (cases "json r") (simp_all add: fetch_one_def send_def logger_simps Let_def del: py_get.simps)
  with cid u r show "\<exists>cid u r.
             py_get (PDict kvs) ''characterId'' = Inr cid
           \<and> str_format w t [(''projectId'', project_id cfg), (''characterId'', cid)] = Inr u
           \<and> http w (sent s) (get_request u hs) = Some r
           \<and> fetch_one w cfg hs (PDict kvs) s =
               (if \<not> truthy cid then (Skipped, logger WARNING IdNotFound s)
                else if raise_for_status r then
                  (Skipped,
                   logger ERROR (ResponseContent (Some (resp_text r)))
                     (logger ERROR (DetailFetchFailed cid (status_code r))
                        ((logger INFO (FetchingDetails cid) s)
                           \<lparr>sent := sent s @ [get_request u hs]\<rparr>)))
                else
                  (case json r of
                     None \<Rightarrow>
                       (Skipped,
                        logger ERROR (DetailDecodeFailed cid)
                          ((logger INFO (FetchingDetails cid) s)
                             \<lparr>sent := sent s @ [get_request u hs]\<rparr>))
                   | Some d \<Rightarrow>
                       (Appended d,
                        (logger INFO (FetchingDetails cid) s)
                          \<lparr>sent := sent s @ [get_request u hs]\<rparr>)))"
    by blast
qed

theorem failed_items_are_skipped_witness:
  "fst (fetch_details three_world sample_settings [(''Authorization'', ''Bearer T'')]
          [summary 1, summary 2, summary 3] [] listed)
     = Continue [detail 1, detail 3]
   \<and> map fst (passes three_world sample_settings [(''Authorization'', ''Bearer T'')]
          [summary 1, summary 2, summary 3] listed)
     = [Appended (detail 1), Skipped, Appended (detail 3)]
   \<and> (ERROR, DetailFetchFailed (PInt 2) 500) \<in> set (logged (snd (main three_world)))
   \<and> map (map_option rows) (map snd (files (snd (main three_world))))
       = [Some [[Filled], [Filled]]]"
proof -
  let ?hs = "[(''Authorization'', ''Bearer T'')]"
  have a: "fst (fetch_details three_world sample_settings ?hs
          [summary 1, summary 2, summary 3] [] listed)
     = Continue ([] @ appended (passes three_world sample_settings ?hs
          [summary 1, summary 2, summary 3] listed))"
    by (rule failed_items_are_skipped [where t = "''/{projectId}/characters/{characterId}''",
          THEN conjunct2, THEN conjunct1])
      (simp_all add: three_world_def sample_world_def sample_settings_def summary_def
         scripted_answered)
  have p: "map fst (passes three_world sample_settings ?hs
          [summary 1, summary 2, summary 3] listed)
     = [Appended (detail 1), Skipped, Appended (detail 3)]"
    by (simp add: sample_defs run_defs listed_def)
  have q: "appended (passes three_world sample_settings ?hs
          [summary 1, summary 2, summary 3] listed) = [detail 1, detail 3]"
    by (simp add: sample_defs run_defs listed_def)
  have m: "(ERROR, DetailFetchFailed (PInt 2) 500) \<in> set (logged (snd (main three_world)))
   \<and> map (map_option rows) (map snd (files (snd (main three_world))))
       = [Some [[Filled], [Filled]]]"
    by (simp add: sample_defs run_defs)
  from a p q m show ?thesis by simp
qed

text \<open>
  The claim as the spec states it fails on three lists. A detail response with status 300,
  which is not 2xx, and a JSON body is collected and nothing is logged about it; a list with
  a number among the summaries, and a detail request without a response, make the run
  raise before anything is written.
\<close>

theorem detail_failures_counterexample:
  "\<not> (200 \<le> status_code (reply 300 ''d2'' (Some (detail 2)))
        \<and> status_code (reply 300 ''d2'' (Some (detail 2))) < 300)
   \<and> fst (main multiple_choices_world) = None
   \<and> logged (snd (main multiple_choices_world))
       = [(INFO, Authenticating), (INFO, FetchingIds), (INFO, FetchingDetails (PInt 1)),
          (INFO, FetchingDetails (PInt 2)), (INFO, FetchingDetails (PInt 3)),
          (INFO, Written ''output.csv'')]
   \<and> fst (fetch_details multiple_choices_world sample_settings [(''Authorization'', ''Bearer T'')]
          [summary 1, summary 2, summary 3] [] listed)
       = Continue [detail 1, detail 2, detail 3]
   \<and> files (snd (main multiple_choices_world))
       = [(''output.csv'',
           Some \<lparr>columns = [''id''], rows = [[Filled], [Filled], [Filled]]\<rparr>)]
   \<and> fst (main number_item_world) = Some AttributeError
   \<and> files (snd (main number_item_world)) = []
   \<and> fst (main dropped_detail_world) = Some RequestException
   \<and> files (snd (main dropped_detail_world)) = []"
  by (simp add: multiple_choices_world_def number_item_world_def dropped_detail_world_def
      sample_defs run_defs listed_def)

section \<open>Failures of the authentication\<close>

text \<open>
  C3, as the code has it. With the configuration loaded, the run issues the authentication
  POST once and never again, and
  \<^item> a response with status 400 to 599 is logged as AuthFailed with its status, and the run
    returns without raising;
  \<^item> a response of any other status whose body is not JSON is logged as MalformedResponse
    together with the body, and the run returns without raising;
  \<^item> a JSON object whose access_token is absent or falsy is logged as TokenMissing together
    with the body, and the run returns without raising;
  \<^item> a request that gets no response raises out of the run, and no error is logged.
  In every case no output file is touched.
\<close>

theorem authentication_failures:
  assumes "load_yaml w config_path = Inr config"
      and "read_settings config = Inr cfg"
  shows "(http w (sent st) (auth_request cfg) = Some r \<and> raise_for_status r
          \<longrightarrow> fst (fetch_character_data w config_path output_file st) = None
            \<and> (ERROR, AuthFailed (status_code r))
                 \<in> set (logged (snd (fetch_character_data w config_path output_file st)))
            \<and> sent (snd (fetch_character_data w config_path output_file st))
                = sent st @ [auth_request cfg]
            \<and> files (snd (fetch_character_data w config_path output_file st)) = files st)
       \<and> (http w (sent st) (auth_request cfg) = Some r \<and> \<not> raise_for_status r
            \<and> json r = None
          \<longrightarrow> fst (fetch_character_data w config_path output_file st) = None
            \<and> logged (snd (fetch_character_data w config_path output_file st))
                = logged st @ [(INFO, Authenticating), (ERROR, MalformedResponse),
                               (ERROR, ResponseContent (Some (resp_text r)))]
            \<and> sent (snd (fetch_character_data w config_path output_file st))
                = sent st @ [auth_request cfg]
            \<and> files (snd (fetch_character_data w config_path output_file st)) = files st)
       \<and> (http w (sent st) (auth_request cfg) = Some r \<and> \<not> raise_for_status r
            \<and> json r = Some (PDict kvs)
            \<and> (map_of kvs ''access_token'' = None
                \<or> (\<exists>v. map_of kvs ''access_token'' = Some v \<and> \<not> truthy v))
          \<longrightarrow> fst (fetch_character_data w config_path output_file st) = None
            \<and> logged (snd (fetch_character_data w config_path output_file st))
                = logged st @ [(INFO, Authenticating), (ERROR, TokenMissing),
                               (ERROR, ResponseContent (Some (resp_text r)))]
            \<and> sent (snd (fetch_character_data w config_path output_file st))
                = sent st @ [auth_request cfg]
            \<and> files (snd (fetch_character_data w config_path output_file st)) = files st)
       \<and> (http w (sent st) (auth_request cfg) = None
          \<longrightarrow> fst (fetch_character_data w config_path output_file st) = Some RequestException
            \<and> logged (snd (fetch_character_data w config_path output_file st))
                = logged st @ [(INFO, Authenticating)]
            \<and> sent (snd (fetch_character_data w config_path output_file st))
                = sent st @ [auth_request cfg]
            \<and> files (snd (fetch_character_data w config_path output_file st)) = files st)"
proof (intro conjI impI)
  assume a: "http w (sent st) (auth_request cfg) = Some r \<and> raise_for_status r"
  then have run: "fetch_character_data w config_path output_file st =
      (None,
       logger ERROR (ResponseContent (if resp_truthy r then Some (resp_text r) else None))
         (logger ERROR (StatusCode (if resp_truthy r then Some (status_code r) else None))
            (logger ERROR (AuthFailed (status_code r))
               ((logger INFO Authenticating st)\<lparr>sent := sent st @ [auth_request cfg]\<rparr>))))"
    using assms by (simp add: fetch_character_data_def authenticate_def send_def logger_simps)
  show "fst (fetch_character_data w config_path output_file st) = None"
    using run by simp
  show "(ERROR, AuthFailed (status_code r))
          \<in> set (logged (snd (fetch_character_data w config_path output_file st)))"
    using run by (simp add: logger_simps)
  show "sent (snd (fetch_character_data w config_path output_file st))
          = sent st @ [auth_request cfg]"
    using run by (simp add: logger_simps)
  show "files (snd (fetch_character_data w config_path output_file st)) = files st"
    using run by (simp add: logger_simps)
next
  assume a: "http w (sent st) (auth_request cfg) = Some r \<and> \<not> raise_for_status r
            \<and> json r = None"
  then have run: "fetch_character_data w config_path output_file st =
      (None,
       logger ERROR (ResponseContent (Some (resp_text r)))
         (logger ERROR MalformedResponse
            ((logger INFO Authenticating st)\<lparr>sent := sent st @ [auth_request cfg]\<rparr>)))"
    using assms by (simp add: fetch_character_data_def authenticate_def send_def logger_simps)
  show "fst (fetch_character_data w config_path output_file st) = None"
    using run by simp
  show "logged (snd (fetch_character_data w config_path output_file st))
                = logged st @ [(INFO, Authenticating), (ERROR, MalformedResponse),
                               (ERROR, ResponseContent (Some (resp_text r)))]"
    using run by (simp add: logger_simps)
  show "sent (snd (fetch_character_data w config_path output_file st))
          = sent st @ [auth_request cfg]"
    using run by (simp add: logger_simps)
  show "files (snd (fetch_character_data w config_path output_file st)) = files st"
    using run by (simp add: logger_simps)
next
  assume a: "http w (sent st) (auth_request cfg) = Some r \<and> \<not> raise_for_status r
            \<and> json r = Some (PDict kvs)
            \<and> (map_of kvs ''access_token'' = None
                \<or> (\<exists>v. map_of kvs ''access_token'' = Some v \<and> \<not> truthy v))"
  then have run: "fetch_character_data w config_path output_file st =
      (None,
       logger ERROR (ResponseContent (Some (resp_text r)))
         (logger ERROR TokenMissing
            ((logger INFO Authenticating st)\<lparr>sent := sent st @ [auth_request cfg]\<rparr>)))"
    using assms
    by (auto simp: fetch_character_data_def authenticate_def send_def logger_simps)
  show "fst (fetch_character_data w config_path output_file st) = None"
    using run by simp
  show "logged (snd (fetch_character_data w config_path output_file st))
                = logged st @ [(INFO, Authenticating), (ERROR, TokenMissing),
                               (ERROR, ResponseContent (Some (resp_text r)))]"
    using run by (simp add: logger_simps)
  show "sent (snd (fetch_character_data w config_path output_file st))
          = sent st @ [auth_request cfg]"
    using run by (simp add: logger_simps)
  show "files (snd (fetch_character_data w config_path output_file st)) = files st"
    using run by (simp add: logger_simps)
next
  assume a: "http w (sent st) (auth_request cfg) = None"
  then have run: "fetch_character_data w config_path output_file st =
      (Some RequestException,
       (logger INFO Authenticating st)\<lparr>sent := sent st @ [auth_request cfg]\<rparr>)"
    using assms by (simp add: fetch_character_data_def authenticate_def send_def logger_simps)
  show "fst (fetch_character_data w config_path output_file st) = Some RequestException"
    using run by simp
  show "logged (snd (fetch_character_data w config_path output_file st))
                = logged st @ [(INFO, Authenticating)]"
    using run by (simp add: logger_simps)
  show "sent (snd (fetch_character_data w config_path output_file st))
          = sent st @ [auth_request cfg]"
    using run by (simp add: logger_simps)
  show "files (snd (fetch_character_data w config_path output_file st)) = files st"
    using run by (simp add: logger_simps)
qed

theorem authentication_failures_witness:
  "fst (main unauthorized_world) = None
   \<and> (ERROR, AuthFailed 401) \<in> set (logged (snd (main unauthorized_world)))
   \<and> sent (snd (main unauthorized_world)) = [auth_request sample_settings]
   \<and> files (snd (main unauthorized_world)) = []
   \<and> main html_world =
     (None,
      \<lparr>logged = [(INFO, Authenticating), (ERROR, MalformedResponse),
                 (ERROR, ResponseContent (Some ''<html>''))],
       sent = [auth_request sample_settings], files = []\<rparr>)
   \<and> main no_token_world =
     (None,
      \<lparr>logged = [(INFO, Authenticating), (ERROR, TokenMissing),
                 (ERROR, ResponseContent (Some ''{access_token: null}''))],
       sent = [auth_request sample_settings], files = []\<rparr>)
   \<and> main offline_world =
     (Some RequestException,
      \<lparr>logged = [(INFO, Authenticating)], sent = [auth_request sample_settings], files = []\<rparr>)"
proof -
  note inst = authentication_failures [where config = sample_config and cfg = sample_settings
      and config_path = "''parse_config.yaml''" and output_file = "''output.csv''" and st = init]
  have 1: "fst (main unauthorized_world) = None
       \<and> (ERROR, AuthFailed (status_code (reply 401 ''denied'' (Some (PDict [])))))
            \<in> set (logged (snd (main unauthorized_world)))
       \<and> sent (snd (main unauthorized_world)) = sent init @ [auth_request sample_settings]
       \<and> files (snd (main unauthorized_world)) = files init"
    unfolding main_def
    by (rule inst [where w = unauthorized_world, THEN conjunct1, THEN mp])
      (simp_all add: unauthorized_world_def sample_defs read_settings_def init_def
         raise_for_status_def auth_request_def)
  have 2: "fst (main html_world) = None
       \<and> logged (snd (main html_world))
           = logged init @ [(INFO, Authenticating), (ERROR, MalformedResponse),
               (ERROR, ResponseContent (Some (resp_text (reply 200 ''<html>'' None))))]
       \<and> sent (snd (main html_world)) = sent init @ [auth_request sample_settings]
       \<and> files (snd (main html_world)) = files init"
    unfolding main_def
    by (rule inst [where w = html_world, THEN conjunct2, THEN conjunct1, THEN mp])
      (simp_all add: html_world_def sample_defs read_settings_def init_def
         raise_for_status_def auth_request_def)
  have 3: "fst (main no_token_world) = None
       \<and> logged (snd (main no_token_world))
           = logged init @ [(INFO, Authenticating), (ERROR, TokenMissing),
               (ERROR, ResponseContent (Some (resp_text (reply 200 ''{access_token: null}''
                   (Some (PDict [(''access_token'', PNone)]))))))]
       \<and> sent (snd (main no_token_world)) = sent init @ [auth_request sample_settings]
       \<and> files (snd (main no_token_world)) = files init"
    unfolding main_def
    by (rule inst [where w = no_token_world and kvs = "[(''access_token'', PNone)]",
          THEN conjunct2, THEN conjunct2, THEN conjunct1, THEN mp])
      (simp_all add: no_token_world_def sample_defs read_settings_def init_def
         raise_for_status_def auth_request_def)
  have 4: "fst (main offline_world) = Some RequestException
       \<and> logged (snd (main offline_world)) = logged init @ [(INFO, Authenticating)]
       \<and> sent (snd (main offline_world)) = sent init @ [auth_request sample_settings]
       \<and> files (snd (main offline_world)) = files init"
    unfolding main_def
    by (rule inst [where w = offline_world,
          THEN conjunct2, THEN conjunct2, THEN conjunct2, THEN mp])
      (simp_all add: offline_world_def sample_defs read_settings_def init_def
         raise_for_status_def auth_request_def)
  have eq: "x = (a, \<lparr>logged = l, sent = s, files = f\<rparr>)"
    if "fst x = a" "logged (snd x) = l" "sent (snd x) = s" "files (snd x) = f"
    for x :: "exn option \<times> state" and a l s f
    using that by (cases x) auto
  show ?thesis
    using 1 2 3 4 by (auto simp: init_def reply_def intro!: eq)
qed

text \<open>
  The claim as the spec states it fails on three answers to the POST: without a response
  the run raises and logs no AuthFailed; status 300, which is not 2xx, with a token in the
  body authenticates, and the run goes on to the character list; a JSON array, which has no
  access_token, raises AttributeError where the claim has TokenMissing.
\<close>

theorem authentication_failures_counterexample:
  "main offline_world =
     (Some RequestException,
      \<lparr>logged = [(INFO, Authenticating)], sent = [auth_request sample_settings], files = []\<rparr>)
   \<and> \<not> (200 \<le> status_code (reply 300 ''{access_token: T}''
                  (Some (PDict [(''access_token'', PStr ''T'')])))
        \<and> status_code (reply 300 ''{access_token: T}''
                  (Some (PDict [(''access_token'', PStr ''T'')]))) < 300)
   \<and> fst (main multiple_choices_auth_world) = None
   \<and> logged (snd (main multiple_choices_auth_world))
       = [(INFO, Authenticating), (INFO, FetchingIds), (INFO, NoCharacters)]
   \<and> main array_auth_world =
     (Some AttributeError,
      \<lparr>logged = [(INFO, Authenticating)], sent = [auth_request sample_settings], files = []\<rparr>)"
  by (simp add: offline_world_def multiple_choices_auth_world_def array_auth_world_def
      sample_defs run_defs)

section \<open>How the run ends\<close>

lemma authenticate_no_raise:
  assumes "\<And>earlier rq. http w earlier rq \<noteq> None"
      and "\<forall>r v. http w (sent st) (auth_request cfg) = Some r \<and> \<not> raise_for_status r
             \<and> json r = Some v \<longrightarrow> is_dict v"
  shows "authenticate w cfg st \<noteq> (Raise e, st')"
proof -
  obtain r where r: "http w (sent st) (auth_request cfg) = Some r"
    using assms(1) by (metis option.exhaust)
  show ?thesis
  proof (cases "raise_for_status r")
    case True
    with r show ?thesis by (simp add: authenticate_def send_def logger_simps)
  next
    case False
    show ?thesis
    proof (cases "json r")
      case None
      with r False show ?thesis by (simp add: authenticate_def send_def logger_simps)
    next
      case (Some v)
      with assms(2) r False obtain kvs where "v = PDict kvs" by (cases v) auto
      with r False Some show ?thesis
        by (cases "map_of kvs ''access_token''")
          (simp_all add: authenticate_def send_def logger_simps)
    qed
  qed
qed

lemma fetch_ids_no_raise:
  assumes "\<And>earlier rq. http w earlier rq \<noteq> None"
      and "characters_url cfg = PStr t"
      and "\<And>args. \<exists>u. str_format w t args = Inr u"
      and "\<forall>rq r. http w (sent st) rq = Some r \<and> \<not> raise_for_status r
             \<longrightarrow> (\<exists>v. json r = Some v \<and> (\<forall>cs. v = PList cs \<longrightarrow> (\<forall>c \<in> set cs. is_dict c)))"
  shows "fetch_ids w cfg hs st \<noteq> (Raise e, st')"
    and "fetch_ids w cfg hs st = (Continue cs, st') \<Longrightarrow> \<forall>c \<in> set cs. is_dict c"
proof -
  obtain u where u: "format_url w (characters_url cfg) [(''projectId'', project_id cfg)] = Inr u"
    using assms(2,3) by (metis format_url.simps(1))
  obtain r where r: "http w (sent st) (get_request u hs) = Some r"
    using assms(1) by (metis option.exhaust)
  have body: "\<not> raise_for_status r
     \<Longrightarrow> \<exists>v. json r = Some v \<and> (\<forall>cs. v = PList cs \<longrightarrow> (\<forall>c \<in> set cs. is_dict c))"
    using assms(4) r by blast
  show "fetch_ids w cfg hs st \<noteq> (Raise e, st')"
  proof (cases "raise_for_status r")
    case True
    with u r show ?thesis by (simp add: fetch_ids_def send_def logger_simps Let_def)
  next
    case False
    from body [OF False] obtain v where "json r = Some v" by blast
    with u r False show ?thesis
      by (cases v) (simp_all add: fetch_ids_def send_def logger_simps Let_def)
  qed
  show "\<forall>c \<in> set cs. is_dict c" if c: "fetch_ids w cfg hs st = (Continue cs, st')"
  proof (cases "raise_for_status r")
    case True
    with u r c show ?thesis by (simp add: fetch_ids_def send_def logger_simps Let_def)
  next
    case False
    from body [OF False] obtain v where
      v: "json r = Some v" "\<forall>cs. v = PList cs \<longrightarrow> (\<forall>c \<in> set cs. is_dict c)" by blast
    with u r False c show ?thesis
      by (cases v) (auto simp: fetch_ids_def send_def logger_simps Let_def split: if_splits)
  qed
qed

text \<open>
  C4, as the code has it. The run returns normally, with nothing but log records to tell a
  failure from a success, when the configuration file is missing, and also when all of
  this holds: the file loads to a mapping with the five keys; both URL templates are
  strings that format; every request gets a response; the authentication body, when the
  status check passes and it is JSON, is an object; and the body of the character list, when
  the status check passes, is JSON, with objects as elements when it is an array.
\<close>

theorem run_returns_normally:
  assumes "load_yaml w config_path = Inl FileNotFoundError
         \<or> (load_yaml w config_path = Inr config
            \<and> read_settings config = Inr cfg
            \<and> characters_url cfg = PStr list_template
            \<and> character_details_url cfg = PStr detail_template
            \<and> (\<forall>args. \<exists>u. str_format w list_template args = Inr u)
            \<and> (\<forall>args. \<exists>u. str_format w detail_template args = Inr u)
            \<and> (\<forall>earlier rq. http w earlier rq \<noteq> None)
            \<and> (\<forall>r v. http w (sent st) (auth_request cfg) = Some r \<and> \<not> raise_for_status r
                    \<and> json r = Some v \<longrightarrow> is_dict v)
            \<and> (\<forall>rq r. http w (sent st @ [auth_request cfg]) rq = Some r \<and> \<not> raise_for_status r
                    \<longrightarrow> (\<exists>v. json r = Some v
                          \<and> (\<forall>cs. v = PList cs \<longrightarrow> (\<forall>c \<in> set cs. is_dict c)))))"
  shows "fst (fetch_character_data w config_path output_file st) = None"
  using assms
proof
  assume "load_yaml w config_path = Inl FileNotFoundError"
  then show ?thesis by (simp add: fetch_character_data_def)
next
  assume a: "load_yaml w config_path = Inr config
            \<and> read_settings config = Inr cfg
            \<and> characters_url cfg = PStr list_template
            \<and> character_details_url cfg = PStr detail_template
            \<and> (\<forall>args. \<exists>u. str_format w list_template args = Inr u)
            \<and> (\<forall>args. \<exists>u. str_format w detail_template args = Inr u)
            \<and> (\<forall>earlier rq. http w earlier rq \<noteq> None)
            \<and> (\<forall>r v. http w (sent st) (auth_request cfg) = Some r \<and> \<not> raise_for_status r
                    \<and> json r = Some v \<longrightarrow> is_dict v)
            \<and> (\<forall>rq r. http w (sent st @ [auth_request cfg]) rq = Some r \<and> \<not> raise_for_status r
                    \<longrightarrow> (\<exists>v. json r = Some v
                          \<and> (\<forall>cs. v = PList cs \<longrightarrow> (\<forall>c \<in> set cs. is_dict c))))"
  then have cfg: "load_yaml w config_path = Inr config" "read_settings config = Inr cfg"
    and lt: "characters_url cfg = PStr list_template"
    and dt: "character_details_url cfg = PStr detail_template"
    and lf: "\<And>args. \<exists>u. str_format w list_template args = Inr u"
    and df: "\<And>args. \<exists>u. str_format w detail_template args = Inr u"
    and answered: "\<And>earlier rq. http w earlier rq \<noteq> None"
    and auth_body: "\<forall>r v. http w (sent st) (auth_request cfg) = Some r \<and> \<not> raise_for_status r
                    \<and> json r = Some v \<longrightarrow> is_dict v"
    and list_body: "\<forall>rq r. http w (sent st @ [auth_request cfg]) rq = Some r \<and> \<not> raise_for_status r
                    \<longrightarrow> (\<exists>v. json r = Some v
                          \<and> (\<forall>cs. v = PList cs \<longrightarrow> (\<forall>c \<in> set cs. is_dict c)))"
    by blast+
  obtain r1 st1 where auth: "authenticate w cfg st = (r1, st1)"
    by (cases "authenticate w cfg st")
  have s1: "sent st1 = sent st @ [auth_request cfg]"
    using authenticate_frame(2) [OF auth] .
  show ?thesis
  proof (cases r1)
    case (Continue token)
    obtain r2 st2 where ids: "fetch_ids w cfg (bearer w token) st1 = (r2, st2)"
      by (cases "fetch_ids w cfg (bearer w token) st1")
    have lb: "\<forall>rq r. http w (sent st1) rq = Some r \<and> \<not> raise_for_status r
                    \<longrightarrow> (\<exists>v. json r = Some v
                          \<and> (\<forall>cs. v = PList cs \<longrightarrow> (\<forall>c \<in> set cs. is_dict c)))"
      using list_body unfolding s1 .
    show ?thesis
    proof (cases r2)
      case (Continue characters)
      have objs: "\<forall>c \<in> set characters. is_dict c"
        using fetch_ids_no_raise(2) [OF answered lt lf lb] ids Continue by blast
      from fetch_details_passes [OF objs answered dt df, of "bearer w token" st2 "[]"]
      obtain ds st3 where
        "fetch_details w cfg (bearer w token) characters [] st2 = (Continue ds, st3)"
        by blast
      with cfg auth ids \<open>r1 = Continue token\<close> Continue show ?thesis
        by (simp add: fetch_character_data_def)
    next
      case Return
      with cfg auth ids \<open>r1 = Continue token\<close> show ?thesis
        by (simp add: fetch_character_data_def)
    next
      case (Raise e)
      with fetch_ids_no_raise(1) [OF answered lt lf lb] ids show ?thesis by blast
    qed
  next
    case Return
    with cfg auth show ?thesis by (simp add: fetch_character_data_def)
  next
    case (Raise e)
    with authenticate_no_raise [OF answered auth_body] auth show ?thesis by blast
  qed
qed

theorem run_returns_normally_witness:
  "fst (main three_world) = None
   \<and> fst (main (sample_world (Inl FileNotFoundError) [])) = None"
proof
  have answered: "\<forall>earlier rq. http three_world earlier rq \<noteq> None"
    by (simp add: three_world_def sample_world_def scripted_answered)
  have auth: "\<forall>r v. http three_world (sent init) (auth_request sample_settings) = Some r
        \<and> \<not> raise_for_status r \<and> json r = Some v \<longrightarrow> is_dict v"
    by (auto simp: sample_defs init_def)
  have list: "\<forall>rq r. http three_world (sent init @ [auth_request sample_settings]) rq = Some r
        \<and> \<not> raise_for_status r
        \<longrightarrow> (\<exists>v. json r = Some v \<and> (\<forall>cs. v = PList cs \<longrightarrow> (\<forall>c \<in> set cs. is_dict c)))"
    by (auto simp: sample_defs init_def)
  show "fst (main three_world) = None"
    unfolding main_def
    by (rule run_returns_normally [where config = sample_config and cfg = sample_settings
          and list_template = "''/{projectId}/characters''"
          and detail_template = "''/{projectId}/characters/{characterId}''"])
      (rule disjI2, intro conjI answered auth list,
        simp_all add: three_world_def sample_world_def sample_config_def sample_settings_def
          read_settings_def)
  show "fst (main (sample_world (Inl FileNotFoundError) [])) = None"
    unfolding main_def
    by (rule run_returns_normally) (rule disjI1, simp add: sample_world_def)
qed

text \<open>
  The claim as the spec states it fails where one of these conditions does: each of the
  runs below ends with an exception that leaves \<open>fetch_character_data\<close>.
\<close>

theorem run_returns_normally_counterexample:
  "main no_keys_world = (Some (KeyError ''auth_url''), init)
   \<and> main empty_file_world = (Some TypeError, init)
   \<and> main bad_yaml_world = (Some YAMLError, init)
   \<and> fst (main offline_world) = Some RequestException
   \<and> fst (main array_auth_world) = Some AttributeError
   \<and> fst (main html_list_world) = Some ValueError
   \<and> fst (main number_item_world) = Some AttributeError
   \<and> fst (main dropped_detail_world) = Some RequestException"
  by (simp add: no_keys_world_def empty_file_world_def bad_yaml_world_def offline_world_def
      array_auth_world_def html_list_world_def number_item_world_def dropped_detail_world_def
      sample_defs run_defs)

section \<open>The exported table\<close>















end
